theory Spec2Isabelle
  imports Complex_Main "HOL-Library.Multiset"
begin

section \<open>Data model\<close>

text \<open>
  The discussion system of \<^verbatim>\<open>src/agents/need_finder.py\<close>, the evaluator of
  \<^verbatim>\<open>src/agents/evaluator.py\<close> and the background runner and prioritizer of
  \<^verbatim>\<open>run_api.py\<close>. Python exceptions are values of \<open>error\<close>; a function that can
  raise returns \<open>error + 'a\<close>.
\<close>

datatype error = GatewayError | SchemaError | TypeError | AttributeError | KeyError
  | ObserverError | ValueError

text \<open>\<^verbatim>\<open>class NeedItem(BaseModel)\<close>: five text fields.\<close>

record NeedItem =
  need :: string
  need_summary :: string
  need_medical_insights :: string
  tech_insights :: string
  strategy :: string

text \<open>
  Python values that reach the evaluator and the background runner: the result of
  \<^verbatim>\<open>ast.literal_eval\<close> (strings, lists, dicts with string keys, None) and instances of
  \<open>NeedItem\<close>.
\<close>

datatype pyval = PyNone | PyStr string | PyList "pyval list" | PyDict "(string \<times> pyval) list"
  | PyNeedItem NeedItem

text \<open>\<^verbatim>\<open>class NeedEvaluation(BaseModel)\<close> and \<^verbatim>\<open>class NeedsEvaluationOutput(BaseModel)\<close>.\<close>

record NeedEvaluation =
  need_title :: string
  feasibility_score :: real
  impact_score :: real
  innovation_score :: real
  resource_score :: real
  overall_score :: real
  strengths :: "string list"
  weaknesses :: "string list"
  recommendations :: "string list"

record NeedsEvaluationOutput =
  evaluations :: "NeedEvaluation list"
  summary :: string
  top_priority_needs :: "string list"

text \<open>
  The ambient state of a run: how many calls the language model has received, the status
  events delivered to the observer, and the lines written through the logger.
\<close>

datatype event_data = StartedData int | CompletedData int string nat

record event =
  event_type :: string
  agent :: string
  data :: event_data

datatype log_entry =
    CreatingPrioritization nat
  | SortedNeeds "real option"
  | GeneratedPrioritization nat nat
  | LogInfo string
  | LogDebug string
  | LogSuccess string
  | LogWarning string
  | LogError string error

record world =
  llm_calls :: nat
  events :: "event list"
  logged :: "log_entry list"

definition log_line :: "log_entry \<Rightarrow> world \<Rightarrow> world" where
  "log_line l w = w\<lparr>logged := logged w @ [l]\<rparr>"

text \<open>\<^verbatim>\<open>HumanMessage\<close> and \<^verbatim>\<open>AIMessage\<close> of the message history, and \<^verbatim>\<open>ReflectionState\<close>.\<close>

datatype message = HumanMessage string | AIMessage string

fun content :: "message \<Rightarrow> string" where
  "content (HumanMessage c) = c"
| "content (AIMessage c) = c"

record ReflectionState =
  messages :: "message list"
  medical_insights :: "string list"
  engineering_insights :: "string list"
  discussion_round :: int
  max_rounds :: int
  final_summary :: string

text \<open>
  The language model is outside the program. A prompt is kept as the data the source puts
  into it; the model's answer may depend on the prompt and on how many calls came before,
  and a call may raise. \<open>chat\<close> is \<^verbatim>\<open>prompt | llm\<close>; \<open>needs_chain\<close> and
  \<open>evaluation_chain\<close> are \<^verbatim>\<open>prompt | llm | parser\<close>, which raise when the call fails or
  when the output does not parse into the schema.
\<close>

datatype prompt =
    MedicalPrompt "message list"
  | EngineerPrompt "message list"
  | JudgePrompt string
  | CollectorPrompt "string list" "string list" "string list"
  | EvaluationPrompt "(nat \<times> pyval \<times> pyval \<times> pyval \<times> pyval \<times> pyval) list"

record gateway =
  chat :: "nat \<Rightarrow> prompt \<Rightarrow> error + string"
  needs_chain :: "nat \<Rightarrow> prompt \<Rightarrow> error + NeedItem list"
  evaluation_chain :: "nat \<Rightarrow> prompt \<Rightarrow> error + NeedsEvaluationOutput"

text \<open>
  Functions of the Python runtime the code relies on: \<^verbatim>\<open>str\<close> of a value and the
  rendering of a float in an f-string. \<^verbatim>\<open>ast.literal_eval\<close> is an argument of the
  functions that call it.
\<close>

record runtime =
  py_str :: "pyval \<Rightarrow> string"
  str_float :: "real \<Rightarrow> string"

text \<open>
  The observer: \<^verbatim>\<open>StatusCallback\<close>. Whether a call of it raises may depend on the events
  it has received before; \<open>None\<close> is a normal return.
\<close>

type_synonym status_callback = "event list \<Rightarrow> event \<Rightarrow> error option"

section \<open>The prioritizer (\<^verbatim>\<open>create_prioritization\<close> in \<^verbatim>\<open>run_api.py\<close>)\<close>

text \<open>
  One entry of \<open>prioritized_needs\<close>: the dict built in the loop over
  \<^verbatim>\<open>enumerate(sorted_needs, 1)\<close>.
\<close>

record PrioritizedNeed =
  rank :: nat
  p_need_title :: string
  p_overall_score :: real
  p_feasibility_score :: real
  p_impact_score :: real
  p_innovation_score :: real
  p_resource_score :: real
  priority_level :: string

record Prioritization =
  prioritized_needs :: "PrioritizedNeed list"
  ranking_criteria :: "(string \<times> string) list"
  p_recommendations :: "string list"

text \<open>
  \<^verbatim>\<open>sorted(xs, key=k, reverse=True)\<close>: Python's sort is stable, and with
  \<open>reverse=True\<close> it keeps elements of equal key in their original order (the list is
  reversed, sorted stably in ascending order, and reversed again).
\<close>

definition sorted_reverse :: "('a \<Rightarrow> real) \<Rightarrow> 'a list \<Rightarrow> 'a list" where
  "sorted_reverse k xs = rev (sort_key k (rev xs))"

definition prioritized_entry :: "nat \<times> NeedEvaluation \<Rightarrow> PrioritizedNeed" where
  "prioritized_entry = (\<lambda>(i, need_eval).
     \<lparr> rank = i,
       p_need_title = need_title need_eval,
       p_overall_score = overall_score need_eval,
       p_feasibility_score = feasibility_score need_eval,
       p_impact_score = impact_score need_eval,
       p_innovation_score = innovation_score need_eval,
       p_resource_score = resource_score need_eval,
       priority_level = (if i \<le> 2 then ''High'' else if i \<le> 4 then ''Medium'' else ''Low'') \<rparr>)"

definition ranking_criteria_const :: "(string \<times> string) list" where
  "ranking_criteria_const =
     [(''primary'', ''Overall Score (weighted combination of all factors)''),
      (''feasibility'', ''Technical implementation possibility (0-10)''),
      (''impact'', ''Potential impact on medical system (0-10)''),
      (''innovation'', ''Innovation level and differentiation (0-10)''),
      (''resource'', ''Resource efficiency (10 = low resource requirement)'')]"

text \<open>
  The f-string of the first recommendation; \<open>str_float\<close> is Python's rendering of a
  float inside an f-string, a function of the runtime.
\<close>

definition top_recommendation :: "runtime \<Rightarrow> PrioritizedNeed \<Rightarrow> string" where
  "top_recommendation rt top_need =
     ''Prioritize '' @ [CHR 0x27] @ p_need_title top_need @ [CHR 0x27]
       @ '' as it has the highest overall score of '' @ str_float rt (p_overall_score top_need)"

definition create_prioritization ::
  "runtime \<Rightarrow> NeedsEvaluationOutput \<Rightarrow> world \<Rightarrow> Prioritization \<times> world" where
  "create_prioritization rt evaluation_result w =
     (let w1 = log_line (CreatingPrioritization (length (evaluations evaluation_result))) w;
          evals = evaluations evaluation_result;
          sorted_needs = sorted_reverse overall_score evals;
          w2 = log_line (SortedNeeds (case sorted_needs of [] \<Rightarrow> None
                                       | e # _ \<Rightarrow> Some (overall_score e))) w1;
          ps = map prioritized_entry (enumerate 1 sorted_needs);
          recs0 = (case ps of [] \<Rightarrow> [] | top_need # _ \<Rightarrow> [top_recommendation rt top_need]);
          recs1 = (if length ps > 1
                   then recs0 @ [''Focus on top 3 ranked needs for maximum impact'']
                   else recs0);
          recs2 = recs1 @ [''Consider resource constraints when selecting implementation order''];
          recs3 = recs2 @ [''Regularly reassess priorities based on changing requirements''];
          w3 = log_line (GeneratedPrioritization (length ps) (length recs3)) w2
      in (\<lparr> prioritized_needs = ps,
            ranking_criteria = ranking_criteria_const,
            p_recommendations = recs3 \<rparr>, w3))"


section \<open>The discussion system (\<^verbatim>\<open>MedicalReflectionSystem\<close> in \<^verbatim>\<open>need_finder.py\<close>)\<close>

text \<open>
  \<^verbatim>\<open>_emit_status\<close>: the callback is called when one is installed, outside any
  \<^verbatim>\<open>try\<close>; what it raises leaves \<^verbatim>\<open>_emit_status\<close>.
\<close>

definition emit_status ::
  "status_callback option \<Rightarrow> string \<Rightarrow> string \<Rightarrow> event_data \<Rightarrow> world \<Rightarrow> error + world" where
  "emit_status status_cb et ag d w =
     (case status_cb of
        None \<Rightarrow> Inr w
      | Some f \<Rightarrow>
          (let ev = \<lparr> event_type = et, agent = ag, data = d \<rparr>
           in case f (events w) ev of
                Some e \<Rightarrow> Inl e
              | None \<Rightarrow> Inr (w\<lparr>events := events w @ [ev]\<rparr>)))"

definition medical_staff_node ::
  "status_callback option \<Rightarrow> gateway \<Rightarrow> ReflectionState \<Rightarrow> world
     \<Rightarrow> error + (ReflectionState \<times> world)" where
  "medical_staff_node status_cb gw state w =
     (case emit_status status_cb ''thinking_started'' ''medical_expert''
             (StartedData (discussion_round state + 1)) w of
        Inl e \<Rightarrow> Inl e
      | Inr w1 \<Rightarrow>
         (case chat gw (llm_calls w1) (MedicalPrompt (messages state)) of
            Inl e \<Rightarrow> Inl e
          | Inr response \<Rightarrow>
             (let w2 = w1\<lparr>llm_calls := Suc (llm_calls w1)\<rparr>;
                  new_messages = messages state @ [AIMessage response];
                  insights = medical_insights state @ [response]
              in case emit_status status_cb ''thinking_completed'' ''medical_expert''
                        (CompletedData (discussion_round state + 1) response (length insights)) w2 of
                   Inl e \<Rightarrow> Inl e
                 | Inr w3 \<Rightarrow>
                     Inr (state\<lparr> messages := new_messages,
                                 medical_insights := insights,
                                 discussion_round := discussion_round state + 1 \<rparr>, w3))))"

definition engineer_node ::
  "status_callback option \<Rightarrow> gateway \<Rightarrow> ReflectionState \<Rightarrow> world
     \<Rightarrow> error + (ReflectionState \<times> world)" where
  "engineer_node status_cb gw state w =
     (case emit_status status_cb ''thinking_started'' ''engineer''
             (StartedData (discussion_round state + 1)) w of
        Inl e \<Rightarrow> Inl e
      | Inr w1 \<Rightarrow>
         (case chat gw (llm_calls w1) (EngineerPrompt (messages state)) of
            Inl e \<Rightarrow> Inl e
          | Inr response \<Rightarrow>
             (let w2 = w1\<lparr>llm_calls := Suc (llm_calls w1)\<rparr>;
                  new_messages = messages state @ [AIMessage response];
                  insights = engineering_insights state @ [response]
              in case emit_status status_cb ''thinking_completed'' ''engineer''
                        (CompletedData (discussion_round state + 1) response (length insights)) w2 of
                   Inl e \<Rightarrow> Inl e
                 | Inr w3 \<Rightarrow>
                     Inr (state\<lparr> messages := new_messages,
                                 engineering_insights := insights,
                                 discussion_round := discussion_round state + 1 \<rparr>, w3))))"

text \<open>
  The sentinel of \<^verbatim>\<open>collector_node\<close>. Its five texts are the source's literals, as
  UTF-8 bytes: "the need whose parsing failed", "parsing failed, please check the output
  format", "cannot parse the medical insights", "cannot parse the technical insights",
  "cannot parse the strategy".
\<close>

definition sentinel_need :: string where
  "sentinel_need = map char_of [232, 167, 163, 230, 158, 144, 229, 164, 177, 230, 149, 151,
     231, 154, 132, 233, 156, 128, 230, 177, 130 :: nat]"

definition sentinel_summary :: string where
  "sentinel_summary = map char_of [232, 167, 163, 230, 158, 144, 229, 164, 177, 230, 149, 151,
     239, 188, 140, 232, 171, 139, 230, 170, 162, 230, 159, 165, 232, 188, 184, 229, 135, 186,
     230, 160, 188, 229, 188, 143 :: nat]"

definition sentinel_medical :: string where
  "sentinel_medical = map char_of [231, 132, 161, 230, 179, 149, 232, 167, 163, 230, 158, 144,
     233, 134, 171, 231, 153, 130, 230, 180, 158, 229, 175, 159 :: nat]"

definition sentinel_tech :: string where
  "sentinel_tech = map char_of [231, 132, 161, 230, 179, 149, 232, 167, 163, 230, 158, 144,
     230, 138, 128, 232, 161, 147, 230, 180, 158, 229, 175, 159 :: nat]"

definition sentinel_strategy :: string where
  "sentinel_strategy = map char_of [231, 132, 161, 230, 179, 149, 232, 167, 163, 230, 158, 144,
     231, 173, 150, 231, 149, 165 :: nat]"

text \<open>\<^verbatim>\<open>model_dump()\<close> of a \<open>NeedsOutput\<close>: a dict with the key \<open>needs\<close>.\<close>

definition dump_item :: "NeedItem \<Rightarrow> pyval" where
  "dump_item n = PyDict [(''need'', PyStr (need n)), (''summary'', PyStr (need_summary n)),
     (''medical_insights'', PyStr (need_medical_insights n)),
     (''tech_insights'', PyStr (tech_insights n)), (''strategy'', PyStr (strategy n))]"

definition model_dump :: "NeedItem list \<Rightarrow> pyval" where
  "model_dump ns = PyDict [(''needs'', PyList (map dump_item ns))]"

definition sentinel_output :: pyval where
  "sentinel_output = PyDict [(''needs'', PyList [PyDict [(''need'', PyStr sentinel_need),
     (''summary'', PyStr sentinel_summary), (''medical_insights'', PyStr sentinel_medical),
     (''tech_insights'', PyStr sentinel_tech), (''strategy'', PyStr sentinel_strategy)]])]"

text \<open>
  The \<^verbatim>\<open>try\<close> of \<^verbatim>\<open>collector_node\<close>: \<open>parsed_output\<close> is the dump of what the chain
  returns, or the sentinel when the chain raises.
\<close>

definition collector_parsed_output :: "gateway \<Rightarrow> ReflectionState \<Rightarrow> world \<Rightarrow> pyval \<times> world" where
  "collector_parsed_output gw state w =
     (let p = CollectorPrompt (medical_insights state) (engineering_insights state)
                (map content (messages state));
          w1 = w\<lparr>llm_calls := Suc (llm_calls w)\<rparr>
      in case needs_chain gw (llm_calls w) p of
           Inr response \<Rightarrow> (model_dump response, w1)
         | Inl e \<Rightarrow> (sentinel_output, w1))"

definition collector_node ::
  "runtime \<Rightarrow> gateway \<Rightarrow> ReflectionState \<Rightarrow> world \<Rightarrow> ReflectionState \<times> world" where
  "collector_node rt gw state w =
     (case collector_parsed_output gw state w of
        (parsed_output, w1) \<Rightarrow>
          (state\<lparr> messages := messages state @ [AIMessage (py_str rt parsed_output)],
                  final_summary := py_str rt parsed_output \<rparr>, w1))"


text \<open>
  \<^verbatim>\<open>judgment = ....content.strip().lower()\<close> and the test \<^verbatim>\<open>"medical" in judgment\<close>.
  Strings are bytes here; \<open>lower\<close> acts on the ASCII letters and \<open>strip\<close> on the ASCII
  white space, which is all that the two ASCII keywords can see.
\<close>

definition lower_char :: "char \<Rightarrow> char" where
  "lower_char c = (let n = (of_char c :: nat) in if 65 \<le> n \<and> n \<le> 90 then char_of (n + 32) else c)"

definition lower :: "string \<Rightarrow> string" where
  "lower s = map lower_char s"

definition is_space :: "char \<Rightarrow> bool" where
  "is_space c = ((of_char c :: nat) \<in> {9, 10, 11, 12, 13, 28, 29, 30, 31, 32})"

definition strip :: "string \<Rightarrow> string" where
  "strip s = rev (dropWhile is_space (rev (dropWhile is_space s)))"

fun starts_with :: "string \<Rightarrow> string \<Rightarrow> bool" where
  "starts_with [] s = True"
| "starts_with (p # ps) [] = False"
| "starts_with (p # ps) (c # cs) = (p = c \<and> starts_with ps cs)"

fun contains :: "string \<Rightarrow> string \<Rightarrow> bool" where
  "contains sub [] = (sub = [])"
| "contains sub (c # cs) = (starts_with sub (c # cs) \<or> contains sub cs)"

text \<open>
  \<^verbatim>\<open>_should_continue_discussion\<close>: the routing function of both agent nodes. It returns
  the key of the next edge. The call of the classifier is inside a \<^verbatim>\<open>try\<close>.
\<close>

definition should_continue_discussion ::
  "gateway \<Rightarrow> ReflectionState \<Rightarrow> world \<Rightarrow> string \<times> world" where
  "should_continue_discussion gw state w =
     (let current_round = discussion_round state;
          max_r = max_rounds state
      in if current_round \<ge> max_r then (''collector'', w)
         else
           (case (if messages state = [] then None else Some (last (messages state))) of
              Some (AIMessage c) \<Rightarrow>
                (let w1 = w\<lparr>llm_calls := Suc (llm_calls w)\<rparr>
                 in case chat gw (llm_calls w) (JudgePrompt c) of
                      Inr answer \<Rightarrow>
                        (let judgment = lower (strip answer)
                         in if contains ''medical'' judgment then (''engineer_agent'', w1)
                            else if contains ''engineering'' judgment then (''medical'', w1)
                            else (if current_round mod 2 = 0 then ''engineer_agent''
                                  else ''medical'', w1))
                    | Inl e \<Rightarrow>
                        (if current_round mod 2 = 0 then ''engineer_agent'' else ''medical'', w1))
            | _ \<Rightarrow> (''medical'', w)))"

text \<open>
  \<^verbatim>\<open>_build_graph\<close>: three nodes; \<open>START\<close> leads to the medical agent, both agents have
  the conditional edges below (\<open>None\<close> is \<open>END\<close>), and the collector leads to \<open>END\<close>.
\<close>

datatype node = MedicalStaffAgent | EngineerAgent | Collector

definition conditional_edges :: "(string \<times> node option) list" where
  "conditional_edges =
     [(''medical'', Some MedicalStaffAgent), (''engineer_agent'', Some EngineerAgent),
      (''collector'', Some Collector), (''end'', None)]"

datatype config =
    Running node ReflectionState world
  | Finished ReflectionState world
  | Failed error

definition follow_edge :: "gateway \<Rightarrow> ReflectionState \<Rightarrow> world \<Rightarrow> config" where
  "follow_edge gw state w =
     (case should_continue_discussion gw state w of
        (key, w1) \<Rightarrow>
          (case map_of conditional_edges key of
             None \<Rightarrow> Failed KeyError
           | Some None \<Rightarrow> Finished state w1
           | Some (Some nd) \<Rightarrow> Running nd state w1))"

text \<open>One step of the graph: a node runs, then its outgoing edge is chosen.\<close>

definition step ::
  "runtime \<Rightarrow> status_callback option \<Rightarrow> gateway \<Rightarrow> node \<Rightarrow> ReflectionState \<Rightarrow> world \<Rightarrow> config" where
  "step rt status_cb gw nd state w =
     (case nd of
        MedicalStaffAgent \<Rightarrow>
          (case medical_staff_node status_cb gw state w of
             Inl e \<Rightarrow> Failed e
           | Inr (state1, w1) \<Rightarrow> follow_edge gw state1 w1)
      | EngineerAgent \<Rightarrow>
          (case engineer_node status_cb gw state w of
             Inl e \<Rightarrow> Failed e
           | Inr (state1, w1) \<Rightarrow> follow_edge gw state1 w1)
      | Collector \<Rightarrow>
          (case collector_node rt gw state w of
             (state1, w1) \<Rightarrow> Finished state1 w1))"

fun step_config :: "runtime \<Rightarrow> status_callback option \<Rightarrow> gateway \<Rightarrow> config \<Rightarrow> config" where
  "step_config rt status_cb gw (Running nd state w) = step rt status_cb gw nd state w"
| "step_config rt status_cb gw (Finished state w) = Finished state w"
| "step_config rt status_cb gw (Failed e) = Failed e"

text \<open>
  The number of steps a configuration is from the end of its run at most: one for the
  collector, and before it one per round that is left (at least one, since an agent that
  is entered runs).
\<close>

fun steps_left :: "config \<Rightarrow> nat" where
  "steps_left (Running Collector state w) = 1"
| "steps_left (Running nd state w) =
     max 1 (nat (max_rounds state - discussion_round state)) + 1"
| "steps_left (Finished state w) = 0"
| "steps_left (Failed e) = 0"

definition initial_state :: "string \<Rightarrow> int \<Rightarrow> ReflectionState" where
  "initial_state user_query max_r =
     \<lparr> messages = [HumanMessage user_query],
       medical_insights = [],
       engineering_insights = [],
       discussion_round = 0,
       max_rounds = max_r,
       final_summary = [] \<rparr>"


text \<open>
  \<^verbatim>\<open>graph.invoke\<close>: steps are taken until the graph reaches \<open>END\<close> or a node raises.
\<close>

function graph_run ::
  "runtime \<Rightarrow> status_callback option \<Rightarrow> gateway \<Rightarrow> config \<Rightarrow> config" where
  "graph_run rt status_cb gw (Running nd state w) =
     graph_run rt status_cb gw (step rt status_cb gw nd state w)"
| "graph_run rt status_cb gw (Finished state w) = Finished state w"
| "graph_run rt status_cb gw (Failed e) = Failed e"
  by pat_completeness auto
termination
proof (relation "measure (\<lambda>(rt, status_cb, gw, c). steps_left c)")
  show "wf (measure (\<lambda>(rt, status_cb, gw, c). steps_left c))" by simp
next
  fix rt :: runtime and status_cb :: "status_callback option" and gw :: gateway
    and nd :: node and state :: ReflectionState and w :: world
  have edge: "steps_left (follow_edge gw s v)
                \<le> (if discussion_round s \<ge> max_rounds s then 1
                    else nat (max_rounds s - discussion_round s) + 1)"
    for s :: ReflectionState and v
    by (auto simp: follow_edge_def should_continue_discussion_def conditional_edges_def Let_def
             split: option.splits message.splits sum.splits)
  have med: "discussion_round s' = discussion_round s + 1 \<and> max_rounds s' = max_rounds s"
    if "medical_staff_node status_cb gw s v = Inr (s', v')"
    for s s' :: ReflectionState and v v'
    using that by (auto simp: medical_staff_node_def Let_def split: sum.splits)
  have eng: "discussion_round s' = discussion_round s + 1 \<and> max_rounds s' = max_rounds s"
    if "engineer_node status_cb gw s v = Inr (s', v')"
    for s s' :: ReflectionState and v v'
    using that by (auto simp: engineer_node_def Let_def split: sum.splits)
  have after: "steps_left (follow_edge gw s' v')
                 < max 1 (nat (max_rounds s - discussion_round s)) + 1"
    if "discussion_round s' = discussion_round s + 1 \<and> max_rounds s' = max_rounds s"
    for s s' :: ReflectionState and v'
    using edge [of s' v'] that by (auto split: if_splits)
  have "steps_left (step rt status_cb gw nd state w) < steps_left (Running nd state w)"
  proof (cases nd)
    case MedicalStaffAgent
    then show ?thesis
      using med after by (auto simp: step_def split: sum.splits)
  next
    case EngineerAgent
    then show ?thesis
      using eng after by (auto simp: step_def split: sum.splits)
  next
    case Collector
    then show ?thesis by (simp add: step_def split: prod.splits)
  qed
  then show "((rt, status_cb, gw, step rt status_cb gw nd state w),
              (rt, status_cb, gw, Running nd state w))
               \<in> measure (\<lambda>(rt, status_cb, gw, c). steps_left c)"
    by simp
qed

text \<open>
  \<^verbatim>\<open>MedicalReflectionSystem.__init__\<close>. An instance starts with no attribute; reading an
  attribute that has not been assigned raises. The constructor assigns \<open>max_rounds\<close> and
  \<open>status_callback\<close>, then calls \<^verbatim>\<open>_build_graph\<close>, whose last line compiles the graph
  with \<^verbatim>\<open>checkpointer=self.checkpointer\<close>, and only then assigns \<open>checkpointer\<close> and
  \<open>parser\<close>.
\<close>

datatype checkpointer = MemorySaver

datatype compiled_graph = CompiledGraph checkpointer

record system_instance =
  self_max_rounds :: "int option"
  self_status_callback :: "status_callback option option"
  self_graph :: "compiled_graph option"
  self_checkpointer :: "checkpointer option"
  self_parser :: bool

definition new_instance :: system_instance where
  "new_instance = \<lparr> self_max_rounds = None, self_status_callback = None, self_graph = None,
     self_checkpointer = None, self_parser = False \<rparr>"

definition build_graph :: "system_instance \<Rightarrow> error + compiled_graph" where
  "build_graph self =
     (case self_checkpointer self of
        None \<Rightarrow> Inl AttributeError
      | Some c \<Rightarrow> Inr (CompiledGraph c))"

definition init_system ::
  "int \<Rightarrow> status_callback option \<Rightarrow> error + system_instance" where
  "init_system max_discussion_rounds status_cb =
     (let self1 = new_instance\<lparr>self_max_rounds := Some max_discussion_rounds\<rparr>;
          self2 = self1\<lparr>self_status_callback := Some status_cb\<rparr>
      in case build_graph self2 of
           Inl e \<Rightarrow> Inl e
         | Inr g \<Rightarrow>
             Inr (self2\<lparr>self_graph := Some g, self_checkpointer := Some MemorySaver,
                        self_parser := True\<rparr>))"

text \<open>
  \<^verbatim>\<open>run_reflection_sync\<close>: the system is constructed with no observer, the graph is
  invoked on the initial state, and the final summary is read back with
  \<^verbatim>\<open>ast.literal_eval\<close> under a bare \<^verbatim>\<open>except\<close>. A run that raises has no result (the
  calls it made before are not tracked further). \<open>graph_run\<close> never returns a running
  configuration, so the last case of the invocation is never taken.
\<close>

record ReflectionResult =
  original_query :: string
  discussion_rounds :: int
  result_medical_insights :: "string list"
  result_engineering_insights :: "string list"
  parsed_needs :: pyval
  result_final_summary :: string
  full_conversation :: "string list"

definition run_reflection_sync ::
  "(string \<Rightarrow> error + pyval) \<Rightarrow> runtime \<Rightarrow> gateway \<Rightarrow> string \<Rightarrow> int \<Rightarrow> world
     \<Rightarrow> error + (ReflectionResult \<times> world)" where
  "run_reflection_sync literal_eval rt gw user_query max_r w =
     (case init_system max_r None of
        Inl e \<Rightarrow> Inl e
      | Inr reflection_system \<Rightarrow>
         (case self_status_callback reflection_system of
            None \<Rightarrow> Inl AttributeError
          | Some status_cb \<Rightarrow>
             (case graph_run rt status_cb gw
                     (Running MedicalStaffAgent (initial_state user_query max_r) w) of
                Failed e \<Rightarrow> Inl e
              | Finished result w1 \<Rightarrow>
                  Inr (\<lparr> original_query = user_query,
                         discussion_rounds = discussion_round result,
                         result_medical_insights = medical_insights result,
                         result_engineering_insights = engineering_insights result,
                         parsed_needs = (case literal_eval (final_summary result) of
                                           Inr v \<Rightarrow> v
                                         | Inl e \<Rightarrow> PyDict [(''needs'', PyList [])]),
                         result_final_summary = final_summary result,
                         full_conversation = map content (messages result) \<rparr>, w1)
              | Running nd state w1 \<Rightarrow> Inl ValueError)))"

section \<open>The evaluator (\<^verbatim>\<open>NeedEvaluator\<close> in \<^verbatim>\<open>evaluator.py\<close>)\<close>

text \<open>
  \<^verbatim>\<open>need['need']\<close> and \<^verbatim>\<open>need.need\<close>: a dict is subscripted and has no attribute
  \<open>need\<close>; a \<open>NeedItem\<close> has the attribute and cannot be subscripted.
\<close>

fun py_getitem :: "pyval \<Rightarrow> string \<Rightarrow> error + pyval" where
  "py_getitem (PyDict kvs) k = (case map_of kvs k of Some v \<Rightarrow> Inr v | None \<Rightarrow> Inl KeyError)"
| "py_getitem v k = Inl TypeError"

fun py_attr_need :: "pyval \<Rightarrow> error + string" where
  "py_attr_need (PyNeedItem n) = Inr (need n)"
| "py_attr_need v = Inl AttributeError"

definition format_need ::
  "nat \<times> pyval \<Rightarrow> error + (nat \<times> pyval \<times> pyval \<times> pyval \<times> pyval \<times> pyval)" where
  "format_need = (\<lambda>(i, nd).
     case py_getitem nd ''need'' of Inl e \<Rightarrow> Inl e | Inr a \<Rightarrow>
     (case py_getitem nd ''summary'' of Inl e \<Rightarrow> Inl e | Inr b \<Rightarrow>
     (case py_getitem nd ''medical_insights'' of Inl e \<Rightarrow> Inl e | Inr c \<Rightarrow>
     (case py_getitem nd ''tech_insights'' of Inl e \<Rightarrow> Inl e | Inr d \<Rightarrow>
     (case py_getitem nd ''strategy'' of Inl e \<Rightarrow> Inl e | Inr f \<Rightarrow>
        Inr (i, a, b, c, d, f))))))"

fun format_all ::
  "(nat \<times> pyval) list \<Rightarrow> error + (nat \<times> pyval \<times> pyval \<times> pyval \<times> pyval \<times> pyval) list" where
  "format_all [] = Inr []"
| "format_all (x # xs) =
     (case format_need x of
        Inl e \<Rightarrow> Inl e
      | Inr c \<Rightarrow> (case format_all xs of Inl e \<Rightarrow> Inl e | Inr cs \<Rightarrow> Inr (c # cs)))"

definition format_needs_for_evaluation ::
  "pyval list \<Rightarrow> error + (nat \<times> pyval \<times> pyval \<times> pyval \<times> pyval \<times> pyval) list" where
  "format_needs_for_evaluation needs = format_all (enumerate 1 needs)"

text \<open>
  The texts of the evaluator, as UTF-8 bytes: the summary for an empty list ("there are no
  need items to evaluate"), and the placeholders of the default evaluation ("needs further
  analysis", "the evaluation failed", "run the evaluation again", "the evaluation ran into
  a problem, please check the input data or run the evaluation again").
\<close>

definition empty_summary :: string where
  "empty_summary = map char_of [230, 178, 146, 230, 156, 137, 233, 156, 128, 230, 177, 130,
     233, 160, 133, 231, 155, 174, 233, 156, 128, 232, 166, 129, 232, 169, 149, 228, 188,
     176 :: nat]"

definition default_strength :: string where
  "default_strength = map char_of [233, 156, 128, 232, 166, 129, 233, 128, 178, 228, 184, 128,
     230, 173, 165, 229, 136, 134, 230, 158, 144 :: nat]"

definition default_weakness :: string where
  "default_weakness = map char_of [232, 169, 149, 228, 188, 176, 233, 129, 142, 231, 168, 139,
     229, 164, 177, 230, 149, 151 :: nat]"

definition default_recommendation :: string where
  "default_recommendation = map char_of [233, 135, 141, 230, 150, 176, 229, 159, 183, 232, 161,
     140, 232, 169, 149, 228, 188, 176 :: nat]"

definition default_summary :: string where
  "default_summary = map char_of [232, 169, 149, 228, 188, 176, 233, 129, 142, 231, 168, 139,
     233, 129, 135, 229, 136, 176, 229, 149, 143, 233, 161, 140, 239, 188, 140, 232, 171, 139,
     230, 170, 162, 230, 159, 165, 232, 188, 184, 229, 133, 165, 230, 149, 184, 230, 147, 154,
     230, 136, 150, 233, 135, 141, 230, 150, 176, 229, 159, 183, 232, 161, 140, 232, 169, 149,
     228, 188, 176 :: nat]"

definition default_evaluation_of :: "string \<Rightarrow> NeedEvaluation" where
  "default_evaluation_of title =
     \<lparr> need_title = title,
       feasibility_score = 5.0,
       impact_score = 5.0,
       innovation_score = 5.0,
       resource_score = 5.0,
       overall_score = 5.0,
       strengths = [default_strength],
       weaknesses = [default_weakness],
       recommendations = [default_recommendation] \<rparr>"

text \<open>The loop of \<^verbatim>\<open>_create_default_evaluation\<close> and its list of titles.\<close>

fun default_evaluations :: "pyval list \<Rightarrow> error + NeedEvaluation list" where
  "default_evaluations [] = Inr []"
| "default_evaluations (n # ns) =
     (case py_attr_need n of
        Inl e \<Rightarrow> Inl e
      | Inr title \<Rightarrow>
          (case default_evaluations ns of
             Inl e \<Rightarrow> Inl e
           | Inr evs \<Rightarrow> Inr (default_evaluation_of title # evs)))"

fun need_titles :: "pyval list \<Rightarrow> error + string list" where
  "need_titles [] = Inr []"
| "need_titles (n # ns) =
     (case py_attr_need n of
        Inl e \<Rightarrow> Inl e
      | Inr title \<Rightarrow> (case need_titles ns of Inl e \<Rightarrow> Inl e | Inr ts \<Rightarrow> Inr (title # ts)))"

definition create_default_evaluation :: "pyval list \<Rightarrow> error + NeedsEvaluationOutput" where
  "create_default_evaluation needs =
     (case default_evaluations needs of
        Inl e \<Rightarrow> Inl e
      | Inr evs \<Rightarrow>
          (case need_titles (take 3 needs) of
             Inl e \<Rightarrow> Inl e
           | Inr ts \<Rightarrow> Inr \<lparr> evaluations = evs, summary = default_summary,
                             top_priority_needs = ts \<rparr>))"

text \<open>
  \<^verbatim>\<open>evaluate_needs\<close>: the empty list returns at once; the needs are formatted outside the
  \<^verbatim>\<open>try\<close>; the chain runs inside it, and the default evaluation is built in the handler.
\<close>

definition evaluate_needs ::
  "gateway \<Rightarrow> pyval list \<Rightarrow> world \<Rightarrow> (error + NeedsEvaluationOutput) \<times> world" where
  "evaluate_needs gw needs w =
     (if needs = []
      then (Inr \<lparr> evaluations = [], summary = empty_summary, top_priority_needs = [] \<rparr>, w)
      else
        (case format_needs_for_evaluation needs of
           Inl e \<Rightarrow> (Inl e, w)
         | Inr needs_content \<Rightarrow>
             (let w1 = w\<lparr>llm_calls := Suc (llm_calls w)\<rparr>
              in case evaluation_chain gw (llm_calls w) (EvaluationPrompt needs_content) of
                   Inr result \<Rightarrow> (Inr result, w1)
                 | Inl e \<Rightarrow> (create_default_evaluation needs, w1))))"


section \<open>The background runner (\<^verbatim>\<open>process_reflection\<close> in \<^verbatim>\<open>run_api.py\<close>)\<close>

text \<open>
  A session of the registry \<open>sessions\<close>; its time stamps are left out. The entries
  \<open>evaluation\<close> and \<open>prioritization\<close> exist only once the runner has written them.
\<close>

datatype 'a stage = StageCompleted 'a | StageError error

record session =
  status :: string
  query :: string
  session_max_rounds :: int
  result :: "ReflectionResult option"
  evaluation :: "NeedsEvaluationOutput stage option"
  prioritization :: "Prioritization stage option"
  session_error :: "error option"

text \<open>\<^verbatim>\<open>d.get(k)\<close> and the truth value of a Python value.\<close>

fun py_get :: "pyval \<Rightarrow> string \<Rightarrow> error + pyval" where
  "py_get (PyDict kvs) k = Inr (case map_of kvs k of Some v \<Rightarrow> v | None \<Rightarrow> PyNone)"
| "py_get v k = Inl AttributeError"

fun truthy :: "pyval \<Rightarrow> bool" where
  "truthy PyNone = False"
| "truthy (PyStr s) = (s \<noteq> [])"
| "truthy (PyList xs) = (xs \<noteq> [])"
| "truthy (PyDict kvs) = (kvs \<noteq> [])"
| "truthy (PyNeedItem n) = True"

text \<open>
  The evaluator called on the value under \<open>needs\<close>. A non-empty string or dict is iterated
  by characters or by keys, which are strings, and subscripting a string by \<open>'need'\<close>
  raises a type error while the needs are formatted.
\<close>

fun evaluate_needs_value ::
  "gateway \<Rightarrow> pyval \<Rightarrow> world \<Rightarrow> (error + NeedsEvaluationOutput) \<times> world" where
  "evaluate_needs_value gw (PyList xs) w = evaluate_needs gw xs w"
| "evaluate_needs_value gw v w = (Inl TypeError, w)"

definition process_reflection ::
  "(string \<Rightarrow> error + pyval) \<Rightarrow> runtime \<Rightarrow> gateway \<Rightarrow> string \<Rightarrow> string \<Rightarrow> int
     \<Rightarrow> (string \<rightharpoonup> session) \<Rightarrow> world \<Rightarrow> error + ((string \<rightharpoonup> session) \<times> world)" where
  "process_reflection literal_eval rt gw session_id q max_r sessions w =
     (let w0 = log_line (LogInfo ''Starting reflection processing'') w
      in case sessions session_id of
           None \<Rightarrow> Inl KeyError
         | Some sess \<Rightarrow>
            (let sess1 = sess\<lparr>status := ''processing''\<rparr>;
                 w1 = log_line (LogInfo ''Running reflection system'')
                        (log_line (LogDebug ''Updated session status to processing'') w0)
             in case run_reflection_sync literal_eval rt gw q max_r w1 of
                  Inl e \<Rightarrow>
                    Inr (sessions(session_id \<mapsto> sess1\<lparr>status := ''error'', session_error := Some e\<rparr>),
                         log_line (LogError ''Reflection processing failed'' e) w1)
                | Inr (res, w2) \<Rightarrow>
                   (let sess2 = sess1\<lparr>status := ''completed'', result := Some res\<rparr>;
                        w3 = log_line (LogDebug ''Stored reflection result'')
                               (log_line (LogSuccess ''Reflection completed successfully'') w2)
                    in case py_get (parsed_needs res) ''needs'' of
                         Inl e \<Rightarrow>
                           Inr (sessions(session_id \<mapsto>
                                  sess2\<lparr>status := ''error'', session_error := Some e\<rparr>),
                                log_line (LogError ''Reflection processing failed'' e) w3)
                       | Inr needs \<Rightarrow>
                           if truthy needs then
                             (let w4 = log_line (LogInfo ''Starting automatic evaluation'') w3
                              in case evaluate_needs_value gw needs w4 of
                                   (Inl e, w5) \<Rightarrow>
                                     Inr (sessions(session_id \<mapsto>
                                            sess2\<lparr>evaluation := Some (StageError e),
                                                  prioritization := Some (StageError e)\<rparr>),
                                          log_line (LogError ''Evaluation/prioritization failed'' e) w5)
                                 | (Inr evaluation_result, w5) \<Rightarrow>
                                     (let w6 = log_line (LogInfo ''Starting prioritization'')
                                                 (log_line (LogSuccess ''Evaluation completed'') w5)
                                      in case create_prioritization rt evaluation_result w6 of
                                           (p, w7) \<Rightarrow>
                                             Inr (sessions(session_id \<mapsto>
                                                    sess2\<lparr>evaluation := Some (StageCompleted evaluation_result),
                                                          prioritization := Some (StageCompleted p)\<rparr>),
                                                  log_line (LogSuccess ''Prioritization completed'') w7)))
                           else
                             Inr (sessions(session_id \<mapsto> sess2),
                                  log_line (LogWarning ''No parsed needs found, skipping evaluation'') w3))))"


section \<open>Invariants of a run\<close>

text \<open>
  What holds of every configuration of a run with the budget \<open>m\<close>: the budget is the
  state's, an agent is entered only below it, and the collector is entered, and the run
  ends, exactly at it.
\<close>

fun within_budget :: "int \<Rightarrow> config \<Rightarrow> bool" where
  "within_budget m (Running Collector state w) =
     (max_rounds state = m \<and> discussion_round state = m)"
| "within_budget m (Running nd state w) =
     (max_rounds state = m \<and> 0 \<le> discussion_round state \<and> discussion_round state < m)"
| "within_budget m (Finished state w) = (max_rounds state = m \<and> discussion_round state = m)"
| "within_budget m (Failed e) = True"

section \<open>Example inputs\<close>

definition world0 :: world where
  "world0 = \<lparr> llm_calls = 0, events = [], logged = [] \<rparr>"

text \<open>
  A runtime for the examples. Its \<open>py_str\<close> writes a value as Python's \<^verbatim>\<open>str\<close> does for
  text of printable characters: a string inside a list or dict in quotes (double quotes
  when it holds a single quote and no double quote), with backslash, the quote and the
  control characters escaped; a list in brackets and a dict in braces, the items
  separated by a comma and a space; a string on its own as it is.
\<close>

definition hex_digit :: "nat \<Rightarrow> char" where
  "hex_digit n = ''0123456789abcdef'' ! n"

definition repr_char :: "char \<Rightarrow> char \<Rightarrow> string" where
  "repr_char q c =
     (let n = (of_char c :: nat)
      in if c = CHR 0x5C then [CHR 0x5C, CHR 0x5C]
         else if c = q then [CHR 0x5C, q]
         else if n = 10 then [CHR 0x5C, CHR ''n'']
         else if n = 13 then [CHR 0x5C, CHR ''r'']
         else if n = 9 then [CHR 0x5C, CHR ''t'']
         else if n < 32 \<or> n = 127
           then [CHR 0x5C, CHR ''x'', hex_digit (n div 16), hex_digit (n mod 16)]
         else [c])"

definition repr_str :: "string \<Rightarrow> string" where
  "repr_str s =
     (let q = (if CHR 0x27 \<in> set s \<and> CHR 0x22 \<notin> set s then CHR 0x22 else CHR 0x27)
      in [q] @ concat (map (repr_char q) s) @ [q])"

fun join :: "string \<Rightarrow> string list \<Rightarrow> string" where
  "join sep [] = []"
| "join sep [x] = x"
| "join sep (x # y # ys) = x @ sep @ join sep (y # ys)"

definition need_item_fields :: "string \<Rightarrow> NeedItem \<Rightarrow> string" where
  "need_item_fields sep n =
     join sep [''need='' @ repr_str (need n), ''summary='' @ repr_str (need_summary n),
       ''medical_insights='' @ repr_str (need_medical_insights n),
       ''tech_insights='' @ repr_str (tech_insights n), ''strategy='' @ repr_str (strategy n)]"

fun py_repr :: "pyval \<Rightarrow> string" where
  "py_repr PyNone = ''None''"
| "py_repr (PyStr s) = repr_str s"
| "py_repr (PyList xs) = ''['' @ join '', '' (map py_repr xs) @ '']''"
| "py_repr (PyDict kvs) =
     ''{'' @ join '', '' (map (\<lambda>(k, v). repr_str k @ '': '' @ py_repr v) kvs) @ ''}''"
| "py_repr (PyNeedItem n) = ''NeedItem('' @ need_item_fields '', '' n @ '')''"

fun python_str :: "pyval \<Rightarrow> string" where
  "python_str (PyStr s) = s"
| "python_str (PyNeedItem n) = need_item_fields '' '' n"
| "python_str v = py_repr v"

definition example_runtime :: runtime where
  "example_runtime = \<lparr> py_str = python_str, str_float = (\<lambda>x. ''score'') \<rparr>"

definition example_evaluation :: "string \<Rightarrow> real \<Rightarrow> NeedEvaluation" where
  "example_evaluation title score =
     \<lparr> need_title = title, feasibility_score = 5, impact_score = 5, innovation_score = 5,
       resource_score = 5, overall_score = score, strengths = [], weaknesses = [],
       recommendations = [] \<rparr>"

definition five_evaluations :: NeedsEvaluationOutput where
  "five_evaluations =
     \<lparr> evaluations = [example_evaluation ''A'' 6, example_evaluation ''B'' 9,
         example_evaluation ''C'' 6, example_evaluation ''D'' 7.5, example_evaluation ''E'' 3],
       summary = ''five'', top_priority_needs = [] \<rparr>"

definition answering_gateway :: gateway where
  "answering_gateway =
     \<lparr> chat = (\<lambda>n p. case p of JudgePrompt c \<Rightarrow> Inr '' Unsure '' | _ \<Rightarrow> Inr ''ok''),
       needs_chain = (\<lambda>n p. Inr []),
       evaluation_chain = (\<lambda>n p. Inl SchemaError) \<rparr>"

definition failing_gateway :: gateway where
  "failing_gateway =
     \<lparr> chat = (\<lambda>n p. Inl GatewayError),
       needs_chain = (\<lambda>n p. Inl SchemaError),
       evaluation_chain = (\<lambda>n p. Inl SchemaError) \<rparr>"

definition example_need_dict :: pyval where
  "example_need_dict = PyDict [(''need'', PyStr ''A''), (''summary'', PyStr ''s''),
     (''medical_insights'', PyStr ''m''), (''tech_insights'', PyStr ''t''),
     (''strategy'', PyStr ''g'')]"





definition example_need_item :: NeedItem where
  "example_need_item = \<lparr> need = ''A'', need_summary = ''s'', need_medical_insights = ''m'',
     tech_insights = ''t'', strategy = ''g'' \<rparr>"

definition medical_topic_gateway :: gateway where
  "medical_topic_gateway =
     \<lparr> chat = (\<lambda>n p. case p of
                  JudgePrompt c \<Rightarrow> Inr ''medical''
                | MedicalPrompt ms \<Rightarrow> Inr ''beds''
                | EngineerPrompt ms \<Rightarrow> Inr ''sensors''
                | _ \<Rightarrow> Inl GatewayError),
       needs_chain = (\<lambda>n p. Inr [example_need_item]),
       evaluation_chain = (\<lambda>n p. Inl SchemaError) \<rparr>"

section \<open>Properties\<close>

subsection \<open>Prioritizer and evaluator\<close>

lemma sorted_reverse_sorted:
  "sorted_wrt (\<lambda>a b. k a \<ge> k b) (sorted_reverse k xs)"
proof -
  have "sorted (map k (sort_key k (rev xs)))" by simp
  then have "sorted_wrt (\<lambda>a b. k a \<le> k b) (sort_key k (rev xs))"
    by (simp add: sorted_map)
  then show ?thesis
    unfolding sorted_reverse_def by (simp add: sorted_wrt_rev)
qed

lemma sorted_reverse_mset: "mset (sorted_reverse k xs) = mset xs"
  by (simp add: sorted_reverse_def)

lemma sorted_reverse_stable:
  "filter (\<lambda>e. k e = v) (sorted_reverse k xs) = filter (\<lambda>e. k e = v) xs"
proof -
  have "filter (\<lambda>e. k e = v) (sorted_reverse k xs)
        = rev (filter (\<lambda>e. k e = v) (sort_key k (rev xs)))"
    by (simp add: sorted_reverse_def rev_filter)
  also have "\<dots> = rev (filter (\<lambda>e. k e = v) (rev xs))"
    by (simp only: sort_key_stable)
  also have "\<dots> = filter (\<lambda>e. k e = v) xs"
    by (simp add: rev_filter)
  finally show ?thesis .
qed

lemma sorted_reverse_length: "length (sorted_reverse k xs) = length xs"
  by (simp add: sorted_reverse_def)

lemma prioritized_needs_eq:
  "prioritized_needs (fst (create_prioritization rt er w))
     = map prioritized_entry (enumerate 1 (sorted_reverse overall_score (evaluations er)))"
  by (simp add: create_prioritization_def Let_def)

lemma map_rank_entries: "map (rank \<circ> prioritized_entry) (enumerate n xs) = [n..<n + length xs]"
  by (simp add: enumerate_eq_zip prioritized_entry_def comp_def case_prod_beta map_fst_zip_take
        flip: map_map)

lemma map_title_entries:
  "map ((\<lambda>p. (p_need_title p, p_overall_score p, p_feasibility_score p, p_impact_score p,
               p_innovation_score p, p_resource_score p)) \<circ> prioritized_entry) (enumerate n xs)
     = map (\<lambda>e. (need_title e, overall_score e, feasibility_score e, impact_score e,
                   innovation_score e, resource_score e)) xs"
  by (induction xs arbitrary: n) (simp_all add: enumerate_simps prioritized_entry_def)

lemma entry_tier:
  "priority_level (prioritized_entry x)
     = (if rank (prioritized_entry x) \<le> 2 then ''High''
        else if rank (prioritized_entry x) \<le> 4 then ''Medium'' else ''Low'')"
  by (cases x) (simp add: prioritized_entry_def)

lemma recommendations_eq:
  "p_recommendations (fst (create_prioritization rt er w))
     = (case sorted_reverse overall_score (evaluations er) of
          [] \<Rightarrow> []
        | best # _ \<Rightarrow>
            [''Prioritize '' @ [CHR 0x27] @ need_title best @ [CHR 0x27]
               @ '' as it has the highest overall score of '' @ str_float rt (overall_score best)])
       @ (if length (evaluations er) > 1
          then [''Focus on top 3 ranked needs for maximum impact''] else [])
       @ [''Consider resource constraints when selecting implementation order'',
          ''Regularly reassess priorities based on changing requirements'']"
  by (cases "sorted_reverse overall_score (evaluations er)")
     (auto simp: create_prioritization_def Let_def top_recommendation_def enumerate_simps
        prioritized_entry_def sorted_reverse_length
        simp flip: sorted_reverse_length [of overall_score "evaluations er"])

text \<open>
  C2. For every evaluation result, the prioritizer sorts the evaluations by overall score in
  descending order and stably (the sorted list is a permutation of the input in which the
  evaluations of any one score keep their input order), copies title and scores into the
  entries in that order, numbers them 1..N, gives the level High to ranks up to 2, Medium
  to ranks up to 4 and Low to the others, and recommends first the top-ranked need by title
  and score (when there is one), followed by the fixed advice.
\<close>

theorem create_prioritization_ranking:
  "let srt = sorted_reverse overall_score (evaluations er);
       P = fst (create_prioritization rt er w);
       ps = prioritized_needs P
   in sorted_wrt (\<lambda>a b. overall_score a \<ge> overall_score b) srt
    \<and> mset srt = mset (evaluations er)
    \<and> (\<forall>v. filter (\<lambda>e. overall_score e = v) srt
             = filter (\<lambda>e. overall_score e = v) (evaluations er))
    \<and> map (\<lambda>p. (p_need_title p, p_overall_score p, p_feasibility_score p, p_impact_score p,
                  p_innovation_score p, p_resource_score p)) ps
        = map (\<lambda>e. (need_title e, overall_score e, feasibility_score e, impact_score e,
                      innovation_score e, resource_score e)) srt
    \<and> map rank ps = [1..<length (evaluations er) + 1]
    \<and> (\<forall>p \<in> set ps. priority_level p
           = (if rank p \<le> 2 then ''High'' else if rank p \<le> 4 then ''Medium'' else ''Low''))
    \<and> p_recommendations P
        = (case srt of
             [] \<Rightarrow> []
           | best # _ \<Rightarrow>
               [''Prioritize '' @ [CHR 0x27] @ need_title best @ [CHR 0x27]
                  @ '' as it has the highest overall score of ''
                  @ str_float rt (overall_score best)])
          @ (if length (evaluations er) > 1
             then [''Focus on top 3 ranked needs for maximum impact''] else [])
          @ [''Consider resource constraints when selecting implementation order'',
             ''Regularly reassess priorities based on changing requirements'']"
proof -
  have ranks: "map rank (prioritized_needs (fst (create_prioritization rt er w)))
                 = [1..<length (evaluations er) + 1]"
    using map_rank_entries [of 1 "sorted_reverse overall_score (evaluations er)"]
    by (simp add: prioritized_needs_eq sorted_reverse_length)
  have fields: "map (\<lambda>p. (p_need_title p, p_overall_score p, p_feasibility_score p,
                     p_impact_score p, p_innovation_score p, p_resource_score p))
                  (prioritized_needs (fst (create_prioritization rt er w)))
                 = map (\<lambda>e. (need_title e, overall_score e, feasibility_score e, impact_score e,
                      innovation_score e, resource_score e))
                     (sorted_reverse overall_score (evaluations er))"
    using map_title_entries [of 1 "sorted_reverse overall_score (evaluations er)"]
    by (simp add: prioritized_needs_eq comp_def)
  have tiers: "\<forall>p \<in> set (prioritized_needs (fst (create_prioritization rt er w))).
                 priority_level p
                   = (if rank p \<le> 2 then ''High'' else if rank p \<le> 4 then ''Medium'' else ''Low'')"
    unfolding prioritized_needs_eq using entry_tier by auto
  show ?thesis
    unfolding Let_def
    using sorted_reverse_sorted [of overall_score "evaluations er"]
      sorted_reverse_mset [of overall_score "evaluations er"]
      sorted_reverse_stable [of overall_score _ "evaluations er"]
      ranks fields tiers recommendations_eq [of rt er w]
    by blast
qed

text \<open>
  Five needs with the scores 6, 9, 6, 7.5 and 3: the two needs of score 6 keep their input
  order, ranks 1 and 2 are High, 3 and 4 Medium, 5 Low.
\<close>

theorem create_prioritization_ranking_witness:
  "map (\<lambda>p. (rank p, p_need_title p, p_overall_score p, priority_level p))
     (prioritized_needs (fst (create_prioritization example_runtime five_evaluations world0)))
     = [(1, ''B'', 9, ''High''), (2, ''D'', 7.5, ''High''), (3, ''A'', 6, ''Medium''),
        (4, ''C'', 6, ''Medium''), (5, ''E'', 3, ''Low'')]
   \<and> hd (p_recommendations (fst (create_prioritization example_runtime five_evaluations world0)))
       = ''Prioritize '' @ [CHR 0x27] @ ''B'' @ [CHR 0x27]
           @ '' as it has the highest overall score of score''"
  using create_prioritization_ranking [of five_evaluations example_runtime world0]
  by (simp add: Let_def five_evaluations_def example_evaluation_def example_runtime_def
        world0_def sorted_reverse_def prioritized_needs_eq prioritized_entry_def enumerate_simps)

text \<open>
  C9. The prioritizer is a pure function of the evaluation result: the prioritization it
  returns is the same whatever the ambient state it is called in (so two calls on the same
  input agree), and it never calls the language model: the number of calls and the events
  delivered to the observer are what they were before.
\<close>

theorem create_prioritization_pure:
  "fst (create_prioritization rt er w1) = fst (create_prioritization rt er w2)
   \<and> llm_calls (snd (create_prioritization rt er w)) = llm_calls w
   \<and> events (snd (create_prioritization rt er w)) = events w"
  by (simp add: create_prioritization_def Let_def log_line_def)

text \<open>
  C6 as stated fails in its summary text: the summary returned for an empty list is the
  source's own text for this case, not the English sentence \<open>no needs to evaluate\<close>.
\<close>

theorem evaluate_needs_empty_summary_counterexample:
  "fst (evaluate_needs failing_gateway [] world0)
     \<noteq> Inr \<lparr> evaluations = [], summary = ''no needs to evaluate'', top_priority_needs = [] \<rparr>"
  by (simp add: evaluate_needs_def empty_summary_def)

text \<open>
  C6, amended. Called with an empty list of needs, the evaluator returns the result with no
  evaluations, the fixed summary text of the source for this case (\<open>empty_summary\<close>)
  and no priority needs, and leaves the ambient state as it was: the language model is
  not called, so a count of calls that was 0 before is 0 after.
\<close>

theorem evaluate_needs_empty:
  "evaluate_needs gw [] w
     = (Inr \<lparr> evaluations = [], summary = empty_summary, top_priority_needs = [] \<rparr>, w)
   \<and> llm_calls (snd (evaluate_needs gw [] (w\<lparr>llm_calls := 0\<rparr>))) = 0"
  by (simp add: evaluate_needs_def)

subsection \<open>Router\<close>




subsection \<open>Extractor\<close>

text \<open>
  C4 as stated fails: a model output that parses into a \<open>NeedsOutput\<close> with no needs is
  passed on as it is, so the collection the extractor returns is empty.
\<close>

theorem collector_empty_needs_counterexample:
  "fst (collector_parsed_output answering_gateway (initial_state ''q'' 1) world0)
     = PyDict [(''needs'', PyList [])]"
  by (simp add: collector_parsed_output_def answering_gateway_def model_dump_def Let_def)

text \<open>
  C4, amended. The extractor never raises what its chain raises: when the chain fails the
  parsed output is the collection of one sentinel item, whose five fields are the fixed
  texts that state the failure; when the chain succeeds it is the dump of the parsed needs,
  one entry per need (none for an empty list). In both cases the collector step ends the
  run with this output as the final summary and as the last message.
\<close>

theorem collector_never_raises:
  "fst (collector_parsed_output gw state w)
     = (case needs_chain gw (llm_calls w)
               (CollectorPrompt (medical_insights state) (engineering_insights state)
                  (map content (messages state))) of
          Inl e \<Rightarrow>
            PyDict [(''needs'', PyList [PyDict [(''need'', PyStr sentinel_need),
              (''summary'', PyStr sentinel_summary), (''medical_insights'', PyStr sentinel_medical),
              (''tech_insights'', PyStr sentinel_tech), (''strategy'', PyStr sentinel_strategy)]])]
        | Inr ns \<Rightarrow> PyDict [(''needs'', PyList (map dump_item ns))])
   \<and> step rt status_cb gw Collector state w
       = Finished (state\<lparr> messages := messages state
                            @ [AIMessage (py_str rt (fst (collector_parsed_output gw state w)))],
                          final_summary := py_str rt (fst (collector_parsed_output gw state w)) \<rparr>)
           (w\<lparr>llm_calls := Suc (llm_calls w)\<rparr>)"
  by (simp add: collector_parsed_output_def step_def collector_node_def Let_def
        sentinel_output_def model_dump_def split: sum.splits)

subsection \<open>Evaluator fallback\<close>

text \<open>
  On instances of \<open>NeedItem\<close> the default evaluation is what is intended: one evaluation
  per need with every score 5.0, and the first three titles. But \<^verbatim>\<open>evaluate_needs\<close> formats
  the needs by subscripting before it calls the chain, which raises on such instances.
\<close>

lemma default_evaluations_need_items:
  "default_evaluations (map PyNeedItem ns) = Inr (map (default_evaluation_of \<circ> need) ns)"
  by (induction ns) simp_all

lemma need_titles_need_items: "need_titles (map PyNeedItem ns) = Inr (map need ns)"
  by (induction ns) simp_all

lemma create_default_evaluation_need_items:
  "create_default_evaluation (map PyNeedItem ns)
     = Inr \<lparr> evaluations = map (default_evaluation_of \<circ> need) ns, summary = default_summary,
             top_priority_needs = map need (take 3 ns) \<rparr>"
  by (simp add: create_default_evaluation_def default_evaluations_need_items
        need_titles_need_items take_map)

lemma evaluate_needs_need_items_type_error:
  "evaluate_needs gw (PyNeedItem n # ns) w = (Inl TypeError, w)"
  by (simp add: evaluate_needs_def format_needs_for_evaluation_def format_need_def)

text \<open>
  C5. The background runner passes the needs as dicts. For such a need the formatting
  succeeds, and when the chain then fails the handler builds the default evaluation by
  reading the attribute \<open>need\<close>, which a dict does not have: the fallback raises.
\<close>

theorem evaluate_needs_fallback_raises:
  "evaluate_needs failing_gateway [example_need_dict] world0
     = (Inl AttributeError, world0\<lparr>llm_calls := 1\<rparr>)"
  by (simp add: evaluate_needs_def format_needs_for_evaluation_def
        format_need_def example_need_dict_def failing_gateway_def create_default_evaluation_def
        world0_def)

subsection \<open>Observer\<close>





subsection \<open>The run of the graph\<close>

lemma router_hard_stop:
  "max_rounds state \<le> discussion_round state \<Longrightarrow>
   should_continue_discussion gw state w = (''collector'', w)"
  by (simp add: should_continue_discussion_def Let_def)

lemma router_below_budget:
  "discussion_round state < max_rounds state \<Longrightarrow>
   fst (should_continue_discussion gw state w) \<in> {''engineer_agent'', ''medical''}"
  by (simp add: should_continue_discussion_def Let_def split: option.splits message.splits sum.splits)

lemma follow_edge_cases:
  "(max_rounds state \<le> discussion_round state \<longrightarrow> follow_edge gw state w = Running Collector state w)
   \<and> (discussion_round state < max_rounds state \<longrightarrow>
        (\<exists>nd v. nd \<noteq> Collector \<and> follow_edge gw state w = Running nd state v))"
proof (intro conjI impI)
  assume "max_rounds state \<le> discussion_round state"
  then show "follow_edge gw state w = Running Collector state w"
    by (simp add: follow_edge_def router_hard_stop conditional_edges_def)
next
  assume "discussion_round state < max_rounds state"
  from router_below_budget [OF this, of gw w]
  show "\<exists>nd v. nd \<noteq> Collector \<and> follow_edge gw state w = Running nd state v"
    by (cases "should_continue_discussion gw state w")
       (auto simp: follow_edge_def conditional_edges_def)
qed

lemma medical_staff_node_effect:
  "medical_staff_node status_cb gw state w = Inr (state1, w1) \<Longrightarrow>
   discussion_round state1 = discussion_round state + 1 \<and> max_rounds state1 = max_rounds state
   \<and> (\<exists>r. messages state1 = messages state @ [AIMessage r])"
  by (auto simp: medical_staff_node_def Let_def split: sum.splits)

lemma engineer_node_effect:
  "engineer_node status_cb gw state w = Inr (state1, w1) \<Longrightarrow>
   discussion_round state1 = discussion_round state + 1 \<and> max_rounds state1 = max_rounds state
   \<and> (\<exists>r. messages state1 = messages state @ [AIMessage r])"
  by (auto simp: engineer_node_def Let_def split: sum.splits)

lemma collector_node_effect:
  "collector_node rt gw state w = (state1, w1) \<Longrightarrow>
   discussion_round state1 = discussion_round state \<and> max_rounds state1 = max_rounds state
   \<and> (\<exists>r. messages state1 = messages state @ [AIMessage r])"
  by (auto simp: collector_node_def split: prod.splits)

text \<open>What one step does to the state, by the kind of node.\<close>

lemma step_effect:
  "case step rt status_cb gw nd state w of
     Failed e \<Rightarrow> nd \<noteq> Collector
   | Finished state1 w1 \<Rightarrow>
       nd = Collector \<and> discussion_round state1 = discussion_round state
       \<and> max_rounds state1 = max_rounds state
       \<and> (\<exists>r. messages state1 = messages state @ [AIMessage r])
   | Running nd1 state1 w1 \<Rightarrow>
       nd \<noteq> Collector \<and> discussion_round state1 = discussion_round state + 1
       \<and> max_rounds state1 = max_rounds state
       \<and> (\<exists>r. messages state1 = messages state @ [AIMessage r])
       \<and> (nd1 = Collector \<longleftrightarrow> max_rounds state1 \<le> discussion_round state1)"
proof (cases nd)
  case MedicalStaffAgent
  show ?thesis
  proof (cases "medical_staff_node status_cb gw state w")
    case (Inl e)
    then show ?thesis using MedicalStaffAgent by (simp add: step_def)
  next
    case (Inr p)
    obtain state1 w1 where p: "p = (state1, w1)" by (cases p)
    from medical_staff_node_effect [OF Inr [unfolded p]] follow_edge_cases [of state1 gw w1]
    show ?thesis using MedicalStaffAgent Inr p
      by (cases "max_rounds state1 \<le> discussion_round state1") (auto simp: step_def)
  qed
next
  case EngineerAgent
  show ?thesis
  proof (cases "engineer_node status_cb gw state w")
    case (Inl e)
    then show ?thesis using EngineerAgent by (simp add: step_def)
  next
    case (Inr p)
    obtain state1 w1 where p: "p = (state1, w1)" by (cases p)
    from engineer_node_effect [OF Inr [unfolded p]] follow_edge_cases [of state1 gw w1]
    show ?thesis using EngineerAgent Inr p
      by (cases "max_rounds state1 \<le> discussion_round state1") (auto simp: step_def)
  qed
next
  case Collector
  obtain state1 w1 where c: "collector_node rt gw state w = (state1, w1)"
    by (cases "collector_node rt gw state w")
  from collector_node_effect [OF c] show ?thesis using Collector c
    by (simp add: step_def)
qed

lemma steps_left_agent:
  "nd \<noteq> Collector \<Longrightarrow>
   steps_left (Running nd state w) = max 1 (nat (max_rounds state - discussion_round state)) + 1"
  by (cases nd) simp_all

lemma within_budget_agent:
  "nd \<noteq> Collector \<Longrightarrow>
   within_budget m (Running nd state w)
     = (max_rounds state = m \<and> 0 \<le> discussion_round state \<and> discussion_round state < m)"
  by (cases nd) simp_all

lemma step_decreases:
  "steps_left (step rt status_cb gw nd state w) < steps_left (Running nd state w)"
  using step_effect [where rt = rt and status_cb = status_cb and gw = gw and nd = nd and state = state and w = w]
  by (cases "step rt status_cb gw nd state w"; cases nd)
     (auto split: if_splits simp: max_def steps_left_agent)

lemma within_budget_step:
  assumes "within_budget m (Running nd state w)"
  shows "within_budget m (step rt status_cb gw nd state w)"
  using step_effect [where rt = rt and status_cb = status_cb and gw = gw and nd = nd and state = state and w = w] assms
  by (cases "step rt status_cb gw nd state w"; cases nd) (auto simp: within_budget_agent)

lemma within_budget_step_config:
  "within_budget m c \<Longrightarrow> within_budget m (step_config rt status_cb gw c)"
  by (cases c) (simp_all add: within_budget_step del: within_budget.simps(1,2,3))

lemma within_budget_steps:
  "within_budget m c \<Longrightarrow> within_budget m ((step_config rt status_cb gw ^^ n) c)"
  by (induction n) (simp_all add: within_budget_step_config)

lemma within_budget_initial:
  "1 \<le> max_r \<Longrightarrow> within_budget max_r (Running MedicalStaffAgent (initial_state q max_r) w)"
  by (simp add: initial_state_def)

text \<open>
  The run is a bounded iteration of the step: it ends after at most \<open>steps_left\<close> steps,
  not in a running configuration, and when it ends normally from a running configuration
  its last step was the collector's.
\<close>

lemma graph_run_steps:
  "\<exists>n \<le> steps_left c.
     (step_config rt status_cb gw ^^ n) c = graph_run rt status_cb gw c
     \<and> (\<forall>nd s v. graph_run rt status_cb gw c \<noteq> Running nd s v)
     \<and> (\<forall>s v nd0 s0 v0. graph_run rt status_cb gw c = Finished s v \<and> c = Running nd0 s0 v0
          \<longrightarrow> 0 < n \<and> (\<exists>s1 v1. (step_config rt status_cb gw ^^ (n - 1)) c = Running Collector s1 v1))"
proof (induction rt status_cb gw c rule: graph_run.induct)
  case (1 rt status_cb gw nd state w)
  let ?c = "Running nd state w" and ?c' = "step rt status_cb gw nd state w"
  from "1.IH" obtain n where n: "n \<le> steps_left ?c'"
    and run: "(step_config rt status_cb gw ^^ n) ?c' = graph_run rt status_cb gw ?c'"
    and fin: "\<forall>nd s v. graph_run rt status_cb gw ?c' \<noteq> Running nd s v"
    and col: "\<forall>s v nd0 s0 v0. graph_run rt status_cb gw ?c' = Finished s v \<and> ?c' = Running nd0 s0 v0
          \<longrightarrow> 0 < n \<and> (\<exists>s1 v1. (step_config rt status_cb gw ^^ (n - 1)) ?c' = Running Collector s1 v1)"
    by blast
  have le: "Suc n \<le> steps_left ?c"
    using n step_decreases [of rt status_cb gw nd state w] by simp
  have run': "(step_config rt status_cb gw ^^ Suc n) ?c = graph_run rt status_cb gw ?c"
    using run by (simp add: funpow_swap1)
  have col': "\<exists>s1 v1. (step_config rt status_cb gw ^^ (Suc n - 1)) ?c = Running Collector s1 v1"
    if f: "graph_run rt status_cb gw ?c = Finished s v" for s v
  proof (cases ?c')
    case (Running nd1 s1 v1)
    with col f have "0 < n"
      and "\<exists>s2 v2. (step_config rt status_cb gw ^^ (n - 1)) ?c' = Running Collector s2 v2"
      by auto
    then obtain s2 v2 where "(step_config rt status_cb gw ^^ (n - 1)) ?c' = Running Collector s2 v2"
      by blast
    moreover have "(step_config rt status_cb gw ^^ (Suc n - 1)) ?c
                     = (step_config rt status_cb gw ^^ (n - 1)) ?c'"
      using \<open>0 < n\<close> by (cases n) (simp_all add: funpow_swap1)
    ultimately show ?thesis by metis
  next
    case (Finished s1 v1)
    with step_effect [where rt = rt and status_cb = status_cb and gw = gw and nd = nd and state = state and w = w] have "nd = Collector" by simp
    moreover have "graph_run rt status_cb gw ?c' = ?c'"
      using Finished by simp
    moreover have "n = 0"
    proof -
      have "steps_left ?c' = 0" using Finished by simp
      with n show ?thesis by simp
    qed
    ultimately show ?thesis by simp
  next
    case (Failed e)
    then show ?thesis using f by simp
  qed
  show ?case
    using le run' fin col' by (intro exI [of _ "Suc n"]) auto
qed auto

text \<open>
  The graph as \<^verbatim>\<open>_build_graph\<close> wires it, run from the initial state with a budget of at
  least one round: whatever the language model answers or raises, the run is over after
  at most \<open>max_rounds + 1\<close> steps, and not in a node. When it has finished, the round
  counter equals the budget and the last step was the collector's. The router returns the
  collector's edge, without calling the classifier, whenever the counter has reached the
  budget.
\<close>

lemma graph_run_bounded:
  assumes "1 \<le> max_r"
  shows "(\<exists>n \<le> nat max_r + 1.
           (step_config rt status_cb gw ^^ n) (Running MedicalStaffAgent (initial_state q max_r) w)
             = graph_run rt status_cb gw (Running MedicalStaffAgent (initial_state q max_r) w)
           \<and> (case graph_run rt status_cb gw
                       (Running MedicalStaffAgent (initial_state q max_r) w) of
                Running nd s v \<Rightarrow> False
              | Failed e \<Rightarrow> True
              | Finished s v \<Rightarrow>
                  discussion_round s = max_r \<and> 0 < n
                  \<and> (\<exists>s1 v1. (step_config rt status_cb gw ^^ (n - 1))
                                 (Running MedicalStaffAgent (initial_state q max_r) w)
                               = Running Collector s1 v1)))
       \<and> (\<forall>state v. max_rounds state \<le> discussion_round state
             \<longrightarrow> should_continue_discussion gw state v = (''collector'', v))"
proof -
  let ?c = "Running MedicalStaffAgent (initial_state q max_r) w"
  have bound: "steps_left ?c = nat max_r + 1"
    using assms by (simp add: initial_state_def max_def)
  from graph_run_steps [where c = ?c and rt = rt and status_cb = status_cb and gw = gw] obtain n where n: "n \<le> steps_left ?c"
    and run: "(step_config rt status_cb gw ^^ n) ?c = graph_run rt status_cb gw ?c"
    and fin: "\<forall>nd s v. graph_run rt status_cb gw ?c \<noteq> Running nd s v"
    and col: "\<forall>s v nd0 s0 v0. graph_run rt status_cb gw ?c = Finished s v \<and> ?c = Running nd0 s0 v0
          \<longrightarrow> 0 < n \<and> (\<exists>s1 v1. (step_config rt status_cb gw ^^ (n - 1)) ?c = Running Collector s1 v1)"
    by blast
  have inv: "within_budget max_r (graph_run rt status_cb gw ?c)"
    using within_budget_steps [OF within_budget_initial [OF assms],
        where rt = rt and status_cb = status_cb and gw = gw and n = n and q1 = q and w1 = w] run
    by simp
  have shape: "case graph_run rt status_cb gw ?c of
                Running nd s v \<Rightarrow> False
              | Failed e \<Rightarrow> True
              | Finished s v \<Rightarrow>
                  discussion_round s = max_r \<and> 0 < n
                  \<and> (\<exists>s1 v1. (step_config rt status_cb gw ^^ (n - 1)) ?c = Running Collector s1 v1)"
  proof (cases "graph_run rt status_cb gw ?c")
    case (Running nd s v)
    with fin show ?thesis by simp
  next
    case (Finished s v)
    with inv col show ?thesis by simp
  next
    case (Failed e)
    then show ?thesis by simp
  qed
  have "\<exists>n \<le> nat max_r + 1.
           (step_config rt status_cb gw ^^ n) ?c = graph_run rt status_cb gw ?c
           \<and> (case graph_run rt status_cb gw ?c of
                Running nd s v \<Rightarrow> False
              | Failed e \<Rightarrow> True
              | Finished s v \<Rightarrow>
                  discussion_round s = max_r \<and> 0 < n
                  \<and> (\<exists>s1 v1. (step_config rt status_cb gw ^^ (n - 1)) ?c = Running Collector s1 v1))"
    using n run shape bound by (intro exI [of _ n]) simp
  then show ?thesis
    using router_hard_stop by blast
qed

lemma medical_staff_node_no_observer:
  "medical_staff_node None gw state w
     = (case chat gw (llm_calls w) (MedicalPrompt (messages state)) of
          Inl e \<Rightarrow> Inl e
        | Inr r \<Rightarrow>
            Inr (state\<lparr> messages := messages state @ [AIMessage r],
                        medical_insights := medical_insights state @ [r],
                        discussion_round := discussion_round state + 1 \<rparr>,
                 w\<lparr>llm_calls := Suc (llm_calls w)\<rparr>))"
  by (simp add: medical_staff_node_def emit_status_def Let_def split: sum.splits)

lemma engineer_node_no_observer:
  "engineer_node None gw state w
     = (case chat gw (llm_calls w) (EngineerPrompt (messages state)) of
          Inl e \<Rightarrow> Inl e
        | Inr r \<Rightarrow>
            Inr (state\<lparr> messages := messages state @ [AIMessage r],
                        engineering_insights := engineering_insights state @ [r],
                        discussion_round := discussion_round state + 1 \<rparr>,
                 w\<lparr>llm_calls := Suc (llm_calls w)\<rparr>))"
  by (simp add: engineer_node_def emit_status_def Let_def split: sum.splits)

lemma collector_node_appends:
  "\<exists>x v. collector_node rt gw state w
           = (state\<lparr> messages := messages state @ [AIMessage x], final_summary := x \<rparr>, v)"
proof (cases "collector_parsed_output gw state w")
  case (Pair out v)
  then show ?thesis
    by (intro exI [of _ "py_str rt out"] exI [of _ v]) (simp add: collector_node_def)
qed

text \<open>With answered agent calls and no observer, a step from a node never fails.\<close>

lemma step_answers:
  assumes "\<forall>n ms. \<exists>r. chat gw n (MedicalPrompt ms) = Inr r"
    and "\<forall>n ms. \<exists>r. chat gw n (EngineerPrompt ms) = Inr r"
  shows "step rt None gw nd state w \<noteq> Failed e"
proof (cases nd)
  case MedicalStaffAgent
  from assms(1) obtain r where "chat gw (llm_calls w) (MedicalPrompt (messages state)) = Inr r"
    by blast
  then obtain s1 v1 where n: "medical_staff_node None gw state w = Inr (s1, v1)"
    by (simp add: medical_staff_node_no_observer)
  from follow_edge_cases [of s1 gw v1] have "follow_edge gw s1 v1 \<noteq> Failed e"
    by (cases "max_rounds s1 \<le> discussion_round s1") auto
  then show ?thesis using MedicalStaffAgent n by (simp add: step_def)
next
  case EngineerAgent
  from assms(2) obtain r where "chat gw (llm_calls w) (EngineerPrompt (messages state)) = Inr r"
    by blast
  then obtain s1 v1 where n: "engineer_node None gw state w = Inr (s1, v1)"
    by (simp add: engineer_node_no_observer)
  from follow_edge_cases [of s1 gw v1] have "follow_edge gw s1 v1 \<noteq> Failed e"
    by (cases "max_rounds s1 \<le> discussion_round s1") auto
  then show ?thesis using EngineerAgent n by (simp add: step_def)
next
  case Collector
  then show ?thesis by (simp add: step_def split: prod.splits)
qed

lemma graph_run_answers:
  assumes "\<forall>n ms. \<exists>r. chat gw n (MedicalPrompt ms) = Inr r"
    and "\<forall>n ms. \<exists>r. chat gw n (EngineerPrompt ms) = Inr r"
  shows "graph_run rt None gw (Running nd state w) \<noteq> Failed e"
proof -
  have inner: "status_cb = None \<Longrightarrow> (\<forall>e. c \<noteq> Failed e) \<Longrightarrow>
        \<forall>n ms. \<exists>r. chat gw n (MedicalPrompt ms) = Inr r \<Longrightarrow>
        \<forall>n ms. \<exists>r. chat gw n (EngineerPrompt ms) = Inr r \<Longrightarrow>
        graph_run rt status_cb gw c \<noteq> Failed e" for status_cb c
  proof (induction rt status_cb gw c rule: graph_run.induct)
    case (1 rt status_cb gw nd state w)
    have "\<forall>e. step rt status_cb gw nd state w \<noteq> Failed e"
      using step_answers [OF "1.prems"(3,4)] "1.prems"(1) by simp
    with "1.IH" "1.prems" show ?case by simp
  qed simp_all
  show ?thesis
    by (rule inner [OF refl _ assms]) simp
qed

text \<open>
  The same graph, when the agents' calls are answered and no observer is installed: the
  run from the initial state reaches the collector and ends, after exactly \<open>max_rounds\<close>
  agent turns, with the collector's output as final summary and last message.
\<close>

lemma graph_run_reaches_collector:
  assumes "1 \<le> max_r"
    and "\<forall>n ms. \<exists>r. chat gw n (MedicalPrompt ms) = Inr r"
    and "\<forall>n ms. \<exists>r. chat gw n (EngineerPrompt ms) = Inr r"
  shows "\<exists>n s v s1 v1.
           n \<le> nat max_r
         \<and> (step_config rt None gw ^^ n) (Running MedicalStaffAgent (initial_state q max_r) w)
             = Running Collector s1 v1
         \<and> discussion_round s1 = max_r
         \<and> step rt None gw Collector s1 v1 = Finished s v
         \<and> graph_run rt None gw (Running MedicalStaffAgent (initial_state q max_r) w)
             = Finished s v
         \<and> discussion_round s = max_r"
proof -
  let ?c = "Running MedicalStaffAgent (initial_state q max_r) w"
  from graph_run_bounded [OF assms(1), where rt = rt and status_cb = None and gw = gw
      and q = q and w = w]
  obtain n where n: "n \<le> nat max_r + 1"
    and run: "(step_config rt None gw ^^ n) ?c = graph_run rt None gw ?c"
    and shape: "case graph_run rt None gw ?c of
                  Running nd s v \<Rightarrow> False
                | Failed e \<Rightarrow> True
                | Finished s v \<Rightarrow>
                    discussion_round s = max_r \<and> 0 < n
                    \<and> (\<exists>s1 v1. (step_config rt None gw ^^ (n - 1)) ?c = Running Collector s1 v1)"
    by blast
  from graph_run_answers [OF assms(2,3)] shape
  obtain s v where fin: "graph_run rt None gw ?c = Finished s v"
    by (cases "graph_run rt None gw ?c") auto
  with shape obtain s1 v1 where round: "discussion_round s = max_r" and pos: "0 < n"
    and col: "(step_config rt None gw ^^ (n - 1)) ?c = Running Collector s1 v1"
    by auto
  have "(step_config rt None gw ^^ n) ?c = step_config rt None gw ((step_config rt None gw ^^ (n - 1)) ?c)"
    using pos by (cases n) simp_all
  with col run fin have st: "step rt None gw Collector s1 v1 = Finished s v" by simp
  have "within_budget max_r (Running Collector s1 v1)"
    using within_budget_steps [OF within_budget_initial [OF assms(1)],
        where rt = rt and status_cb = None and gw = gw and n = "n - 1"] col
    by metis
  then have r1: "discussion_round s1 = max_r" by simp
  show ?thesis
    using n pos col r1 st fin round
    by (intro exI [of _ "n - 1"] exI [of _ s] exI [of _ v] exI [of _ s1] exI [of _ v1]) auto
qed

text \<open>
  C8. In every configuration the graph reaches from the initial state, for a budget of at
  least one round: the round counter lies between 0 and the budget, an agent is about to
  run only while the counter is below the budget, and the run has finished only with the
  counter at the budget. Only an agent's step can fail; the collector's cannot. A step
  that does not fail appends one message to the history and drops none: an agent's step
  increases the counter by exactly 1, still within the budget, and the collector's leaves
  it unchanged. A turn of either agent with no observer returns as soon as the model
  answers, with that answer appended to the history and to the agent's insights and the
  counter increased by 1, and fails only with what the model's call raises; the collector
  always returns, with its output appended and stored as the final summary.
\<close>

theorem round_and_messages_invariants:
  assumes "1 \<le> max_r"
  shows "(case (step_config rt status_cb gw ^^ n)
                (Running MedicalStaffAgent (initial_state q max_r) w) of
            Failed e \<Rightarrow> True
          | Finished s v \<Rightarrow> discussion_round s = max_r
          | Running nd s v \<Rightarrow>
              0 \<le> discussion_round s \<and> discussion_round s \<le> max_r
              \<and> (nd \<noteq> Collector \<longrightarrow> discussion_round s < max_r)
              \<and> (case step rt status_cb gw nd s v of
                   Failed e \<Rightarrow> nd \<noteq> Collector
                 | Finished s1 v1 \<Rightarrow>
                     nd = Collector \<and> discussion_round s1 = discussion_round s
                     \<and> (\<exists>r. messages s1 = messages s @ [AIMessage r])
                 | Running nd1 s1 v1 \<Rightarrow>
                     nd \<noteq> Collector \<and> discussion_round s1 = discussion_round s + 1
                     \<and> discussion_round s1 \<le> max_r
                     \<and> (\<exists>r. messages s1 = messages s @ [AIMessage r])))
       \<and> medical_staff_node None gw state v0
           = (case chat gw (llm_calls v0) (MedicalPrompt (messages state)) of
                Inl e \<Rightarrow> Inl e
              | Inr r \<Rightarrow>
                  Inr (state\<lparr> messages := messages state @ [AIMessage r],
                              medical_insights := medical_insights state @ [r],
                              discussion_round := discussion_round state + 1 \<rparr>,
                       v0\<lparr>llm_calls := Suc (llm_calls v0)\<rparr>))
       \<and> engineer_node None gw state v0
           = (case chat gw (llm_calls v0) (EngineerPrompt (messages state)) of
                Inl e \<Rightarrow> Inl e
              | Inr r \<Rightarrow>
                  Inr (state\<lparr> messages := messages state @ [AIMessage r],
                              engineering_insights := engineering_insights state @ [r],
                              discussion_round := discussion_round state + 1 \<rparr>,
                       v0\<lparr>llm_calls := Suc (llm_calls v0)\<rparr>))
       \<and> (\<exists>x v. collector_node rt gw state v0
                  = (state\<lparr> messages := messages state @ [AIMessage x], final_summary := x \<rparr>, v))"
proof -
  let ?c = "(step_config rt status_cb gw ^^ n) (Running MedicalStaffAgent (initial_state q max_r) w)"
  have inv: "within_budget max_r ?c"
    by (rule within_budget_steps [OF within_budget_initial [OF assms]])
  have reach: "case ?c of
            Failed e \<Rightarrow> True
          | Finished s v \<Rightarrow> discussion_round s = max_r
          | Running nd s v \<Rightarrow>
              0 \<le> discussion_round s \<and> discussion_round s \<le> max_r
              \<and> (nd \<noteq> Collector \<longrightarrow> discussion_round s < max_r)
              \<and> (case step rt status_cb gw nd s v of
                   Failed e \<Rightarrow> nd \<noteq> Collector
                 | Finished s1 v1 \<Rightarrow>
                     nd = Collector \<and> discussion_round s1 = discussion_round s
                     \<and> (\<exists>r. messages s1 = messages s @ [AIMessage r])
                 | Running nd1 s1 v1 \<Rightarrow>
                     nd \<noteq> Collector \<and> discussion_round s1 = discussion_round s + 1
                     \<and> discussion_round s1 \<le> max_r
                     \<and> (\<exists>r. messages s1 = messages s @ [AIMessage r]))"
  proof (cases ?c)
    case (Running nd s v)
    have now: "0 \<le> discussion_round s \<and> discussion_round s \<le> max_r
               \<and> (nd \<noteq> Collector \<longrightarrow> discussion_round s < max_r)"
      using inv assms unfolding Running by (cases nd) auto
    have next_inv: "within_budget max_r (step rt status_cb gw nd s v)"
      using inv unfolding Running by (rule within_budget_step)
    have eff: "case step rt status_cb gw nd s v of
                   Failed e \<Rightarrow> nd \<noteq> Collector
                 | Finished s1 v1 \<Rightarrow>
                     nd = Collector \<and> discussion_round s1 = discussion_round s
                     \<and> (\<exists>r. messages s1 = messages s @ [AIMessage r])
                 | Running nd1 s1 v1 \<Rightarrow>
                     nd \<noteq> Collector \<and> discussion_round s1 = discussion_round s + 1
                     \<and> discussion_round s1 \<le> max_r
                     \<and> (\<exists>r. messages s1 = messages s @ [AIMessage r])"
    proof (cases "step rt status_cb gw nd s v")
      case (Running nd1 s1 v1)
      have "discussion_round s1 \<le> max_r"
        using next_inv unfolding Running by (cases nd1) auto
      then show ?thesis
        using step_effect [where rt = rt and status_cb = status_cb and gw = gw and nd = nd
            and state = s and w = v] Running by simp
    next
      case (Finished s1 v1)
      then show ?thesis
        using step_effect [where rt = rt and status_cb = status_cb and gw = gw and nd = nd
            and state = s and w = v] by simp
    next
      case (Failed e)
      then show ?thesis
        using step_effect [where rt = rt and status_cb = status_cb and gw = gw and nd = nd
            and state = s and w = v] by simp
    qed
    show ?thesis using Running now eff by simp
  next
    case (Finished s v)
    then show ?thesis using inv by simp
  next
    case (Failed e)
    then show ?thesis by simp
  qed
  show ?thesis
    using reach medical_staff_node_no_observer [of gw state v0]
      engineer_node_no_observer [of gw state v0] collector_node_appends [of rt gw state v0]
    by blast
qed

text \<open>
  A budget of two rounds and a classifier that answers \<open>medical\<close>: the medical expert,
  the engineer, then the collector, whose output is written as Python writes the dict.
\<close>

theorem round_and_messages_invariants_witness:
  "(step_config example_runtime None medical_topic_gateway ^^ Suc 0)
     (Running MedicalStaffAgent (initial_state ''q'' 2) world0)
     = Running EngineerAgent
         \<lparr> messages = [HumanMessage ''q'', AIMessage ''beds''], medical_insights = [''beds''],
           engineering_insights = [], discussion_round = 1, max_rounds = 2,
           final_summary = [] \<rparr>
         \<lparr> llm_calls = 2, events = [], logged = [] \<rparr>
   \<and> step example_runtime None medical_topic_gateway EngineerAgent
         \<lparr> messages = [HumanMessage ''q'', AIMessage ''beds''], medical_insights = [''beds''],
           engineering_insights = [], discussion_round = 1, max_rounds = 2,
           final_summary = [] \<rparr>
         \<lparr> llm_calls = 2, events = [], logged = [] \<rparr>
     = Running Collector
         \<lparr> messages = [HumanMessage ''q'', AIMessage ''beds'', AIMessage ''sensors''],
           medical_insights = [''beds''], engineering_insights = [''sensors''],
           discussion_round = 2, max_rounds = 2, final_summary = [] \<rparr>
         \<lparr> llm_calls = 3, events = [], logged = [] \<rparr>
   \<and> step example_runtime None medical_topic_gateway Collector
         \<lparr> messages = [HumanMessage ''q'', AIMessage ''beds'', AIMessage ''sensors''],
           medical_insights = [''beds''], engineering_insights = [''sensors''],
           discussion_round = 2, max_rounds = 2, final_summary = [] \<rparr>
         \<lparr> llm_calls = 3, events = [], logged = [] \<rparr>
     = Finished
         \<lparr> messages = [HumanMessage ''q'', AIMessage ''beds'', AIMessage ''sensors'',
             AIMessage ''{'needs': [{'need': 'A', 'summary': 's', 'medical_insights': 'm', 'tech_insights': 't', 'strategy': 'g'}]}''],
           medical_insights = [''beds''], engineering_insights = [''sensors''],
           discussion_round = 2, max_rounds = 2,
           final_summary = ''{'needs': [{'need': 'A', 'summary': 's', 'medical_insights': 'm', 'tech_insights': 't', 'strategy': 'g'}]}'' \<rparr>
         \<lparr> llm_calls = 4, events = [], logged = [] \<rparr>"
proof -
  have h: "1 \<le> (2::int)" by simp
  show ?thesis
    using round_and_messages_invariants [OF h, where rt = example_runtime and status_cb = None
        and gw = medical_topic_gateway and n = "Suc 0" and q = "''q''" and w = world0]
    by (simp add: step_def medical_staff_node_def engineer_node_def emit_status_def
          follow_edge_def should_continue_discussion_def conditional_edges_def
          collector_node_def collector_parsed_output_def medical_topic_gateway_def
          example_runtime_def example_need_item_def initial_state_def world0_def Let_def
          lower_def strip_def is_space_def lower_char_def model_dump_def dump_item_def
          repr_str_def repr_char_def)
qed

subsection \<open>Construction of the system\<close>

text \<open>
  C1. Every call of \<^verbatim>\<open>run_reflection_sync\<close> raises before the graph is invoked: the
  constructor calls \<^verbatim>\<open>_build_graph\<close>, which reads \<open>self.checkpointer\<close>, before it assigns
  that attribute. No agent turn and no extraction step is taken, and the collector is
  never reached. The graph itself, once built, would do what is intended
  (\<open>graph_run_bounded\<close>, \<open>graph_run_reaches_collector\<close>).
\<close>

theorem run_reflection_sync_raises:
  "run_reflection_sync literal_eval rt gw user_query max_r w = Inl AttributeError"
  by (simp add: run_reflection_sync_def init_system_def build_graph_def new_instance_def Let_def)

text \<open>The background runner therefore ends every session with the status \<open>error\<close>.\<close>

lemma process_reflection_marks_error:
  "sessions session_id = Some sess \<Longrightarrow>
   \<exists>v. process_reflection literal_eval rt gw session_id q max_r sessions w
         = Inr (sessions(session_id \<mapsto> sess\<lparr>status := ''error'',
                                                  session_error := Some AttributeError\<rparr>), v)"
  by (simp add: process_reflection_def Let_def run_reflection_sync_def init_system_def
        build_graph_def new_instance_def)

end
